theory Spec2Isabelle
  imports Complex_Main "HOL-Library.Word"
begin

unbundle bit_operations_syntax

section \<open>The colour-blind contrast plugin (plugins/cbcontrast/index.js)\<close>

text \<open>
  The plugin walks the page, simulates the foreground and the background colour of every
  text element for three kinds of colour blindness, and labels the element with the
  contrast ratio of the simulated pair. Its own code is four methods: \<open>addError\<close>,
  \<open>blind\<close>, \<open>runOneType\<close> and \<open>run\<close>. Everything else it calls lives in other
  packages (the \<open>color-blind\<close> transform, the accessibility developer tools \<open>axs\<close>,
  the annotation module and the plugin base class); those collaborators are parameters
  of the model, collected in the record \<open>env\<close> below.
\<close>

subsection \<open>JavaScript numbers and the operator \<open>| 0\<close>\<close>

text \<open>
  A JavaScript number is a finite value, \<open>NaN\<close> or an infinity. The finite values are
  real numbers here: every double is one, so a statement about all reals covers all
  doubles, and the only arithmetic the plugin itself performs on numbers, the conversion
  \<open>ToInt32\<close> behind \<open>x | 0\<close>, is defined by the language on the mathematical value.
\<close>

datatype jsnum = Fin real | NaN | PosInf | NegInf

text \<open>Truncation towards zero: \<open>sign(x) * floor(abs(x))\<close>.\<close>

definition js_truncate :: "real \<Rightarrow> int" where
  "js_truncate x = (if x < 0 then - \<lfloor>- x\<rfloor> else \<lfloor>x\<rfloor>)"

text \<open>
  \<open>ToInt32\<close>: \<open>NaN\<close> and the infinities become 0; a finite value is truncated towards
  zero and reduced modulo \<open>2^32\<close> (the conversion into a 32-bit word does that).
\<close>

definition ToInt32 :: "jsnum \<Rightarrow> 32 word" where
  "ToInt32 x = (case x of Fin q \<Rightarrow> word_of_int (js_truncate q) | _ \<Rightarrow> 0)"

text \<open>\<open>x | y\<close>: both operands through \<open>ToInt32\<close>, the result read as a signed 32-bit integer.\<close>

definition bitor :: "jsnum \<Rightarrow> jsnum \<Rightarrow> jsnum" where
  "bitor x y = Fin (of_int (sint (ToInt32 x OR ToInt32 y)))"

subsection \<open>Colours and the simulation step\<close>

text \<open>\<open>axs.utils.Color\<close>: four numeric fields.\<close>

record color =
  red :: jsnum
  green :: jsnum
  blue :: jsnum
  alpha :: jsnum

definition Color :: "jsnum \<Rightarrow> jsnum \<Rightarrow> jsnum \<Rightarrow> jsnum \<Rightarrow> color" where
  "Color r g b a = \<lparr>red = r, green = g, blue = b, alpha = a\<rparr>"

text \<open>The object the transform takes and returns: \<open>{R: ..., G: ..., B: ...}\<close>.\<close>

record rgb =
  R :: jsnum
  G :: jsnum
  B :: jsnum

text \<open>An exception thrown by a collaborator, with its message.\<close>

datatype error = Thrown string

text \<open>
  The transform \<open>Blind(rgb, type, anomalize)\<close> of the package \<open>color-blind\<close>. It either
  returns a triple or throws (the specification names an unsupported deficiency as its
  failure).
\<close>

type_synonym blinder = "rgb \<Rightarrow> string \<Rightarrow> bool \<Rightarrow> error + rgb"

text \<open>
  \<^verbatim>\<open>
  blind(color, blindness) {
      let alpha = color.alpha;
      color = blinder({R: color.red, G: color.green, B: color.blue}, blindness, false);
      return {red: color.R | 0, green: color.G | 0, blue: color.B | 0, alpha: alpha};
  }
  \<close>
  The method has no check and no \<open>throw\<close> of its own: an exception of the transform is
  the only way it fails.
\<close>

definition blind :: "blinder \<Rightarrow> color \<Rightarrow> string \<Rightarrow> error + color" where
  "blind transform c blindness =
     (let a = alpha c in
      case transform \<lparr>R = red c, G = green c, B = blue c\<rparr> blindness False of
        Inl e \<Rightarrow> Inl e
      | Inr v \<Rightarrow>
          Inr \<lparr>red = bitor (R v) (Fin 0), green = bitor (G v) (Fin 0),
               blue = bitor (B v) (Fin 0), alpha = a\<rparr>)"

subsection \<open>Collaborators\<close>

text \<open>
  What the plugin calls and does not define. \<open>'el\<close> is a DOM element (\<open>$(el)\<close> wraps it
  and is not distinguished from it), \<open>'style\<close> the computed style of an element, \<open>'h\<close>
  the value \<open>this.error\<close> returns for a report entry: an object, hence truthy.
  Only the transform is given a failing result, see \<open>blinder\<close> above; the other
  collaborators are read as functions that return, \<open>getBgColor\<close> and \<open>getFgColor\<close> with
  a colour.
  \<^item> \<open>colorToString\<close>, \<open>isLargeFont\<close>, \<open>calculateContrastRatio\<close>, \<open>isLowContrast\<close>:
    \<open>axs.utils\<close>;
  \<^item> \<open>toFixed\<close>: \<open>Number.prototype.toFixed\<close>;
  \<^item> \<open>titleTemplate\<close>, \<open>descriptionTemplate\<close>: the two handlebars templates, applied to
    the fields \<open>fgColorHex\<close>, \<open>bgColorHex\<close>, \<open>contrastRatio\<close>, \<open>requiredRatio\<close>,
    \<open>blindness\<close> of the template data;
  \<^item> \<open>pluginError\<close>: the value returned by \<open>this.error(title, description, $(el))\<close>; it
    may depend on everything reported so far;
  \<^item> \<open>hasDirectTextDescendant\<close> (\<open>axs.properties\<close>), \<open>insideTota11y\<close>
    (\<open>$(el).parents(".tota11y").length > 0\<close>), \<open>elementIsTransparent\<close>,
    \<open>elementHasZeroArea\<close>, \<open>getComputedStyle\<close>;
  \<^item> \<open>getBgColor\<close>, \<open>getFgColor\<close>: \<open>axs.utils\<close>; they parse colour strings through the
    global \<open>axs.utils.parseColor\<close>, which they are handed here as their first argument.
\<close>

datatype 'h entry = Marked | Reported 'h

type_synonym 'h combinations = "string \<rightharpoonup> 'h entry"

text \<open>
  The calls that change the page or the info panel, in the order they are made:
  \<^item> \<open>AnnotateLabel el text cls\<close>: \<open>annotate.label($(el), text).addClass(cls)\<close>;
  \<^item> \<open>PluginError title description el h\<close>: \<open>this.error(title, description, $(el))\<close>,
    which returned \<open>h\<close>;
  \<^item> \<open>AnnotateErrorLabel el text expanded v\<close>:
    \<open>annotate.errorLabel($(el), text, expanded, v)\<close>, where \<open>v\<close> is what
    \<open>combinations[key]\<close> holds (\<open>None\<close> for \<open>undefined\<close>).
\<close>

datatype ('el, 'h) event =
    AnnotateLabel 'el string string
  | PluginError string string 'el 'h
  | AnnotateErrorLabel 'el string string "'h entry option"

record ('el, 'style, 'h) env =
  blinder :: blinder
  colorToString :: "color \<Rightarrow> string"
  isLargeFont :: "'style \<Rightarrow> bool"
  calculateContrastRatio :: "color \<Rightarrow> color \<Rightarrow> jsnum"
  toFixed :: "jsnum \<Rightarrow> nat \<Rightarrow> string"
  isLowContrast :: "string \<Rightarrow> 'style \<Rightarrow> bool"
  titleTemplate :: "string \<Rightarrow> string \<Rightarrow> string \<Rightarrow> string \<Rightarrow> string \<Rightarrow> string"
  descriptionTemplate :: "string \<Rightarrow> string \<Rightarrow> string \<Rightarrow> string \<Rightarrow> string \<Rightarrow> string"
  pluginError :: "('el, 'h) event list \<Rightarrow> string \<Rightarrow> string \<Rightarrow> 'el \<Rightarrow> 'h"
  hasDirectTextDescendant :: "'el \<Rightarrow> bool"
  insideTota11y :: "'el \<Rightarrow> bool"
  elementIsTransparent :: "'el \<Rightarrow> bool"
  elementHasZeroArea :: "'el \<Rightarrow> bool"
  getComputedStyle :: "'el \<Rightarrow> 'style"
  getBgColor :: "(string \<Rightarrow> color option) \<Rightarrow> 'style \<Rightarrow> 'el \<Rightarrow> color"
  getFgColor :: "(string \<Rightarrow> color option) \<Rightarrow> 'style \<Rightarrow> 'el \<Rightarrow> color \<Rightarrow> color"

subsection \<open>addError\<close>

text \<open>
  \<^verbatim>\<open>
  addError({fgColor, bgColor, blindness, contrastRatio, requiredRatio}, el) {
      let templateData = {
          fgColorHex: axs.utils.colorToString(fgColor),
          bgColorHex: axs.utils.colorToString(bgColor),
          contrastRatio: contrastRatio, requiredRatio: requiredRatio, blindness: blindness };
      return this.error(titleTemplate(templateData), descriptionTemplate(templateData), $(el));
  }
  \<close>
\<close>

definition addError ::
  "('el, 'style, 'h) env \<Rightarrow> color \<Rightarrow> color \<Rightarrow> string \<Rightarrow> string \<Rightarrow> string \<Rightarrow> 'el \<Rightarrow>
     ('el, 'h) event list \<Rightarrow> 'h \<times> ('el, 'h) event list" where
  "addError env fgColor bgColor blindness contrastRatio requiredRatio el tr =
     (let fgColorHex = colorToString env fgColor;
          bgColorHex = colorToString env bgColor;
          title = titleTemplate env fgColorHex bgColorHex contrastRatio requiredRatio blindness;
          description =
            descriptionTemplate env fgColorHex bgColorHex contrastRatio requiredRatio blindness;
          h = pluginError env tr title description el
      in (h, tr @ [PluginError title description el h]))"

subsection \<open>runOneType\<close>

text \<open>Lines 59-60: \<open>axs.utils.isLargeFont(style) ? "3.0" : "4.5"\<close>.\<close>

definition requiredRatioOf :: "('el, 'style, 'h) env \<Rightarrow> 'style \<Rightarrow> string" where
  "requiredRatioOf env style = (if isLargeFont env style then ''3.0'' else ''4.5'')"

text \<open>
  Lines 64-67: the key of the \<open>combinations\<close> map, built from the colours as they were
  passed in.
\<close>

definition combinationKey ::
  "('el, 'style, 'h) env \<Rightarrow> color \<Rightarrow> color \<Rightarrow> string \<Rightarrow> string \<Rightarrow> string" where
  "combinationKey env fgColor bgColor blindness requiredRatio =
     colorToString env fgColor @ ''/'' @ colorToString env bgColor @ ''/'' @
     blindness @ ''/'' @ requiredRatio"

text \<open>
  Lines 71-72: \<open>axs.utils.calculateContrastRatio(fgColor, bgColor).toFixed(2)\<close>, on the
  simulated colours.
\<close>

definition contrastRatioOf :: "('el, 'style, 'h) env \<Rightarrow> color \<Rightarrow> color \<Rightarrow> string" where
  "contrastRatioOf env fgColor bgColor = toFixed env (calculateContrastRatio env fgColor bgColor) 2"

text \<open>
  The method takes the map \<open>combinations\<close> and mutates it; the model returns the new map
  together with the extended list of calls. \<open>!combinations[key]\<close> holds exactly when the
  key has no entry: both kinds of entry (\<open>true\<close> and a report handle) are truthy, and a key
  contains \<open>/\<close>, so it is no inherited property of the object. Both calls of \<open>blind\<close>
  come before the first effect, so a failure leaves map and page as they were.
\<close>

definition runOneType ::
  "('el, 'style, 'h) env \<Rightarrow> 'el \<Rightarrow> 'h combinations \<Rightarrow> color \<Rightarrow> color \<Rightarrow> 'style \<Rightarrow>
     string \<Rightarrow> string \<Rightarrow> ('el, 'h) event list \<Rightarrow>
     error + ('h combinations \<times> ('el, 'h) event list)" where
  "runOneType env el combinations fgColor bgColor style blindness blindnessName tr =
     (let requiredRatio = requiredRatioOf env style;
          key = combinationKey env fgColor bgColor blindness requiredRatio
      in case blind (blinder env) fgColor blindness of
           Inl e \<Rightarrow> Inl e
         | Inr fgColor' \<Rightarrow>
        (case blind (blinder env) bgColor blindness of
           Inl e \<Rightarrow> Inl e
         | Inr bgColor' \<Rightarrow>
          (let contrastRatio = contrastRatioOf env fgColor' bgColor' in
           if \<not> isLowContrast env contrastRatio style then
             (if combinations key = None
              then Inr (combinations(key \<mapsto> Marked),
                        tr @ [AnnotateLabel el contrastRatio ''tota11y-label-success''])
              else Inr (combinations, tr))
           else
             (let (combinations', tr') =
                    (if combinations key = None
                     then (let (err, tr1) =
                                 addError env fgColor' bgColor' blindnessName contrastRatio
                                   requiredRatio el tr
                           in (combinations(key \<mapsto> Reported err), tr1))
                     else (combinations, tr))
              in Inr (combinations',
                      tr' @ [AnnotateErrorLabel el contrastRatio
                               ''This contrast is insufficient at this size.''
                               (combinations' key)])))))"

subsection \<open>run\<close>

text \<open>
  What \<open>run\<close> reads and writes outside its own variables: the global
  \<open>axs.utils.parseColor\<close> (\<open>None\<close> stands for its \<open>null\<close>) and the calls made so far.
\<close>

record ('el, 'h) world =
  parseColor :: "string \<Rightarrow> color option"
  events :: "('el, 'h) event list"

text \<open>Lines 118-124: the function installed over \<open>axs.utils.parseColor\<close>.\<close>

definition parseColorProxy :: "(string \<Rightarrow> color option) \<Rightarrow> string \<Rightarrow> color option" where
  "parseColorProxy original colorString =
     (if colorString = ''transparent'' then Some (Color (Fin 0) (Fin 0) (Fin 0) (Fin 0))
      else original colorString)"

text \<open>Lines 131-135: \<open>[<internal name>, <name used on UI and in styles>]\<close>.\<close>

definition blindnesses :: "(string \<times> string) list" where
  "blindnesses =
     [(''protan'', ''protanopia''), (''deutan'', ''deuteranopia''), (''tritan'', ''tritanopia'')]"

text \<open>Lines 158-160: the loop over the kinds of blindness, for one element.\<close>

fun forBlindnesses ::
  "('el, 'style, 'h) env \<Rightarrow> 'el \<Rightarrow> color \<Rightarrow> color \<Rightarrow> 'style \<Rightarrow> (string \<times> string) list \<Rightarrow>
     'h combinations \<Rightarrow> ('el, 'h) event list \<Rightarrow>
     error + ('h combinations \<times> ('el, 'h) event list)" where
  "forBlindnesses env el fgColor bgColor style [] combinations tr = Inr (combinations, tr)"
| "forBlindnesses env el fgColor bgColor style (blindness # rest) combinations tr =
     (case runOneType env el combinations fgColor bgColor style (fst blindness) (snd blindness) tr of
        Inl e \<Rightarrow> Inl e
      | Inr (combinations', tr') \<Rightarrow>
          forBlindnesses env el fgColor bgColor style rest combinations' tr')"

text \<open>
  Lines 137-161: \<open>$("*").each((i, el) => ...)\<close> over the elements of the page, in document
  order. An uncaught exception ends the loop and \<open>run\<close> with it.
\<close>

fun eachElement ::
  "('el, 'style, 'h) env \<Rightarrow> 'el list \<Rightarrow> 'h combinations \<Rightarrow> ('el, 'h) world \<Rightarrow>
     error + ('h combinations \<times> ('el, 'h) world)" where
  "eachElement env [] combinations w = Inr (combinations, w)"
| "eachElement env (el # els) combinations w =
     (if \<not> hasDirectTextDescendant env el then eachElement env els combinations w
      else if insideTota11y env el then eachElement env els combinations w
      else if elementIsTransparent env el \<or> elementHasZeroArea env el
      then eachElement env els combinations w
      else
        (let style = getComputedStyle env el;
             bgColor = getBgColor env (parseColor w) style el;
             fgColor = getFgColor env (parseColor w) style el bgColor
         in case forBlindnesses env el fgColor bgColor style blindnesses combinations (events w) of
              Inl e \<Rightarrow> Inl e
            | Inr (combinations', tr') \<Rightarrow>
                eachElement env els combinations' (w\<lparr>events := tr'\<rparr>)))"

text \<open>
  \<^verbatim>\<open>
  run() {
      const _parseColor = axs.utils.parseColor;
      axs.utils.parseColor = function(colorString) { ... };
      let combinations = {};
      let blindnesses = [...];
      $("*").each((i, el) => { ... });
      axs.utils.parseColor = _parseColor;
  }
  \<close>
  The constant \<open>_parseColor\<close> is called \<open>original\<close> below. The restoring assignment is the last statement and there is no \<open>try\<close>: it is reached
  only when the loop returns.
\<close>

definition run ::
  "('el, 'style, 'h) env \<Rightarrow> 'el list \<Rightarrow> ('el, 'h) world \<Rightarrow> error + ('el, 'h) world" where
  "run env elements w =
     (let original = parseColor w;
          w1 = w\<lparr>parseColor := parseColorProxy original\<rparr>;
          combinations = Map.empty
      in case eachElement env elements combinations w1 of
           Inl e \<Rightarrow> Inl e
         | Inr (combinations', w2) \<Rightarrow> Inr (w2\<lparr>parseColor := original\<rparr>))"

subsection \<open>Vocabulary of the statements, and inputs for the examples\<close>


text \<open>
  Two transforms the examples run \<open>blind\<close> with. The first mixes neighbouring channels
  (its results are fractional and stay between 0 and 255 on valid colours) and rejects an
  unknown kind of blindness; the second rejects every kind.
\<close>

definition meanTransform :: blinder where
  "meanTransform c blindness anomalize =
     (if blindness = ''protan'' \<or> blindness = ''deutan'' \<or> blindness = ''tritan''
      then (case (R c, G c, B c) of
              (Fin r, Fin g, Fin b) \<Rightarrow>
                Inr \<lparr>R = Fin ((r + g) / 2), G = Fin ((g + b) / 2), B = Fin ((b + r) / 2)\<rparr>
            | _ \<Rightarrow> Inr \<lparr>R = NaN, G = NaN, B = NaN\<rparr>)
      else Inl (Thrown ''unsupported deficiency''))"

definition rejectingTransform :: blinder where
  "rejectingTransform c blindness anomalize = Inl (Thrown ''unsupported deficiency'')"

text \<open>The kind of a call: a label of an acceptable pair, a report entry, an error label.\<close>

fun isLabel :: "('el, 'h) event \<Rightarrow> bool" where
  "isLabel (AnnotateLabel el text cls) = True"
| "isLabel (PluginError title description el h) = False"
| "isLabel (AnnotateErrorLabel el text expanded v) = False"

fun isReport :: "('el, 'h) event \<Rightarrow> bool" where
  "isReport (AnnotateLabel el text cls) = False"
| "isReport (PluginError title description el h) = True"
| "isReport (AnnotateErrorLabel el text expanded v) = False"

fun isErrorLabel :: "('el, 'h) event \<Rightarrow> bool" where
  "isErrorLabel (AnnotateLabel el text cls) = False"
| "isErrorLabel (PluginError title description el h) = False"
| "isErrorLabel (AnnotateErrorLabel el text expanded v) = True"

text \<open>A call that opens a finding: the label of an acceptable pair, or a report entry.\<close>

definition opensFinding :: "('el, 'h) event \<Rightarrow> bool" where
  "opensFinding e = (isLabel e \<or> isReport e)"

text \<open>
  A page and collaborators for the examples. Elements and report handles are numbers, a
  style is \<open>''large''\<close> or anything else, colours are printed by table, the contrast of
  black and white is 21, of a colour with itself 1 and of any other pair 4.49, and the
  handle of a report entry is the number of calls made before it.
\<close>

definition black :: color where "black = Color (Fin 0) (Fin 0) (Fin 0) (Fin 1)"

definition white :: color where "white = Color (Fin 255) (Fin 255) (Fin 255) (Fin 1)"

definition demoColorToString :: "color \<Rightarrow> string" where
  "demoColorToString c =
     (if c = black then ''#000000''
      else if c = white then ''#ffffff''
      else if c = Color (Fin 10) (Fin 20) (Fin 30) (Fin 1) then ''#0a141e''
      else if c = Color (Fin 10) (Fin 20) (Fin 31) (Fin 1) then ''#0a141f''
      else if c = Color (Fin 15) (Fin 25) (Fin 20) (Fin 1) then ''#0f1914''
      else ''rgba(?)'')"

definition demoContrastRatio :: "color \<Rightarrow> color \<Rightarrow> jsnum" where
  "demoContrastRatio fgColor bgColor =
     (if fgColor = bgColor then Fin 1
      else if (fgColor = black \<and> bgColor = white) \<or> (fgColor = white \<and> bgColor = black)
      then Fin 21
      else Fin (449 / 100))"

definition demoToFixed :: "jsnum \<Rightarrow> nat \<Rightarrow> string" where
  "demoToFixed x digits =
     (if x = Fin 21 then ''21.00'' else if x = Fin 1 then ''1.00''
      else if x = Fin (449 / 100) then ''4.49'' else ''NaN'')"

definition demoParseColor :: "string \<Rightarrow> color option" where
  "demoParseColor colorString =
     (if colorString = ''#000000'' then Some black
      else if colorString = ''#ffffff'' then Some white
      else None)"

definition demoEnv :: "(nat, string, nat) env" where
  "demoEnv =
     \<lparr>blinder = meanTransform,
      colorToString = demoColorToString,
      isLargeFont = (\<lambda>style. style = ''large''),
      calculateContrastRatio = demoContrastRatio,
      toFixed = demoToFixed,
      isLowContrast = (\<lambda>ratio style. ratio = ''1.00'' \<or> ratio = ''4.49''),
      titleTemplate = (\<lambda>fgColorHex bgColorHex contrastRatio requiredRatio blindness.
         ''Insufficient contrast for '' @ blindness),
      descriptionTemplate = (\<lambda>fgColorHex bgColorHex contrastRatio requiredRatio blindness.
         fgColorHex @ '' on '' @ bgColorHex @ '': '' @ contrastRatio @ '' < '' @ requiredRatio),
      pluginError = (\<lambda>tr title description el. length tr),
      hasDirectTextDescendant = (\<lambda>el. el \<noteq> 0),
      insideTota11y = (\<lambda>el. el = 9),
      elementIsTransparent = (\<lambda>el. False),
      elementHasZeroArea = (\<lambda>el. False),
      getComputedStyle = (\<lambda>el. if el = 2 then ''large'' else ''normal''),
      getBgColor = (\<lambda>parse style el.
         case parse (if el = 3 then ''transparent'' else ''#000000'') of
           None \<Rightarrow> black
         | Some c \<Rightarrow> if alpha c = Fin 0 then white else c),
      getFgColor = (\<lambda>parse style el bgColor. if bgColor = white then black else white)\<rparr>"

definition demoWorld :: "(nat, nat) world" where
  "demoWorld = \<lparr>parseColor = demoParseColor, events = []\<rparr>"

subsection \<open>The threshold decision as the specification describes it\<close>

text \<open>
  \<open>axs.utils.isLowContrast\<close>, which \<open>runOneType\<close> calls with the ratio string and the
  style, is not part of the sources. The specification describes the decision it makes as
  \<open>isSufficient(ratio, requiredRatio)\<close>; the definitions of this subsection follow the
  specification's words.
\<close>

text \<open>
  Modelled from the spec: the numeric value of a ratio that is stored as a decimal string
  (\<open>"4.50"\<close>, \<open>"4.5"\<close>, \<open>"3.0"\<close>); the parsing of the absent \<open>isLowContrast\<close> is missing.
  Digits, a point, digits (or digits alone) are read as their number; a string of another
  form has no numeric value here.
\<close>

definition digitValue :: "char \<Rightarrow> nat option" where
  "digitValue = map_of (zip ''0123456789'' [0, 1, 2, 3, 4, 5, 6, 7, 8, 9])"

fun digitsValue :: "string \<Rightarrow> nat \<Rightarrow> nat option" where
  "digitsValue [] acc = Some acc"
| "digitsValue (c # cs) acc =
     (case digitValue c of None \<Rightarrow> None | Some d \<Rightarrow> digitsValue cs (10 * acc + d))"

definition toNumber :: "string \<Rightarrow> real option" where
  "toNumber s =
     (let whole = takeWhile (\<lambda>c. c \<noteq> CHR ''.'') s;
          rest = dropWhile (\<lambda>c. c \<noteq> CHR ''.'') s
      in case rest of
           [] \<Rightarrow> (if whole = [] then None else map_option real (digitsValue whole 0))
         | point # fraction \<Rightarrow>
             (if whole = [] \<or> fraction = [] then None
              else case (digitsValue whole 0, digitsValue fraction 0) of
                     (Some i, Some f) \<Rightarrow> Some (real i + real f / 10 ^ length fraction)
                   | _ \<Rightarrow> None))"

text \<open>
  Modelled from the spec: \<open>isSufficient(ratio, requiredRatio)\<close>, the comparison inside the
  absent \<open>isLowContrast\<close>. It is true iff ratio is greater than or equal to requiredRatio,
  the two compared as numeric values and not as strings; a string without a numeric value
  is never sufficient.
\<close>

definition isSufficient :: "string \<Rightarrow> string \<Rightarrow> bool" where
  "isSufficient ratio requiredRatio =
     (case (toNumber ratio, toNumber requiredRatio) of
        (Some x, Some y) \<Rightarrow> y \<le> x
      | _ \<Rightarrow> False)"

text \<open>
  Modelled from the spec: \<open>axs.utils.isLowContrast(ratio, style)\<close>, absent from the
  sources. Large text requires a ratio of at least 3.0, all other text of at least 4.5; the
  contrast is low when the ratio is not sufficient for the requirement of the style.
\<close>

definition isLowContrastSpec :: "('style \<Rightarrow> bool) \<Rightarrow> string \<Rightarrow> 'style \<Rightarrow> bool" where
  "isLowContrastSpec isLarge ratio style =
     (\<not> isSufficient ratio (if isLarge style then ''3.0'' else ''4.5''))"

subsection \<open>The transform's clamp and the large-text policy as the specification describes them\<close>


text \<open>
  Modelled from the spec: the text style, of which \<open>axs.utils.isLargeFont\<close> (not part of
  the sources) reads the font size and the font weight. Either may be missing.
\<close>

datatype weight = Bold | Regular

record textStyle =
  fontSize :: "real option"
  fontWeight :: "weight option"

text \<open>
  Modelled from the spec: \<open>axs.utils.isLargeFont\<close>, absent from the sources. Large text is
  bold text above a configurable size threshold, or regular text above a higher size
  threshold; a style whose size or weight is missing is not large.
\<close>

definition isLargeFontSpec :: "real \<Rightarrow> real \<Rightarrow> textStyle \<Rightarrow> bool" where
  "isLargeFontSpec boldThreshold regularThreshold style =
     (case (fontSize style, fontWeight style) of
        (Some px, Some Bold) \<Rightarrow> boldThreshold < px
      | (Some px, Some Regular) \<Rightarrow> regularThreshold < px
      | _ \<Rightarrow> False)"

text \<open>
  Collaborators over such styles for the examples, with the thresholds 19 and 24; the
  other collaborators are those of \<open>demoEnv\<close>.
\<close>

definition policyEnv :: "(nat, textStyle, nat) env" where
  "policyEnv =
     \<lparr>blinder = blinder demoEnv,
      colorToString = colorToString demoEnv,
      isLargeFont = isLargeFontSpec 19 24,
      calculateContrastRatio = calculateContrastRatio demoEnv,
      toFixed = toFixed demoEnv,
      isLowContrast = (\<lambda>ratio style. isLowContrast demoEnv ratio ''normal''),
      titleTemplate = titleTemplate demoEnv,
      descriptionTemplate = descriptionTemplate demoEnv,
      pluginError = pluginError demoEnv,
      hasDirectTextDescendant = hasDirectTextDescendant demoEnv,
      insideTota11y = insideTota11y demoEnv,
      elementIsTransparent = elementIsTransparent demoEnv,
      elementHasZeroArea = elementHasZeroArea demoEnv,
      getComputedStyle = (\<lambda>el. \<lparr>fontSize = Some 16, fontWeight = Some Regular\<rparr>),
      getBgColor = (\<lambda>parse style el. white),
      getFgColor = (\<lambda>parse style el bgColor. black)\<rparr>"

subsection \<open>The example collaborators with the threshold decision\<close>

text \<open>The example collaborators, with the threshold decision of the specification.\<close>

definition specEnv :: "(nat, string, nat) env" where
  "specEnv = demoEnv\<lparr>isLowContrast := isLowContrastSpec (isLargeFont demoEnv)\<rparr>"

section \<open>Properties\<close>

subsection \<open>The operator | 0\<close>

lemma bitor_zero: "bitor x (Fin 0) = Fin (of_int (sint (ToInt32 x)))"
  by (simp add: bitor_def ToInt32_def js_truncate_def)







subsection \<open>The examples, evaluated\<close>

lemmas demo_defs =
  demoEnv_def demoColorToString_def demoContrastRatio_def demoToFixed_def black_def white_def
  Color_def meanTransform_def combinationKey_def requiredRatioOf_def contrastRatioOf_def

lemma demo_bitor_values:
  "bitor (Fin 0) (Fin 0) = Fin 0" "bitor (Fin 255) (Fin 0) = Fin 255"
  "bitor (Fin 15) (Fin 0) = Fin 15" "bitor (Fin 25) (Fin 0) = Fin 25"
  "bitor (Fin 20) (Fin 0) = Fin 20" "bitor (Fin (51 / 2)) (Fin 0) = Fin 25"
  "bitor (Fin (41 / 2)) (Fin 0) = Fin 20"
  by (simp_all add: bitor_zero ToInt32_def js_truncate_def)

lemma demo_blind_black: "blind (blinder demoEnv) black b = (if b = ''protan'' \<or> b = ''deutan'' \<or> b = ''tritan'' then Inr black else Inl (Thrown ''unsupported deficiency''))"
  by (simp add: blind_def demo_defs demo_bitor_values)

lemma demo_blind_white: "blind (blinder demoEnv) white b = (if b = ''protan'' \<or> b = ''deutan'' \<or> b = ''tritan'' then Inr white else Inl (Thrown ''unsupported deficiency''))"
  by (simp add: blind_def demo_defs demo_bitor_values)

lemma demo_blind_first:
  "blind (blinder demoEnv) (Color (Fin 10) (Fin 20) (Fin 30) (Fin 1)) ''protan'' =
     Inr (Color (Fin 15) (Fin 25) (Fin 20) (Fin 1))"
  by (simp add: blind_def demo_defs demo_bitor_values)

lemma demo_blind_second:
  "blind (blinder demoEnv) (Color (Fin 10) (Fin 20) (Fin 31) (Fin 1)) ''protan'' =
     Inr (Color (Fin 15) (Fin 25) (Fin 20) (Fin 1))"
  by (simp add: blind_def demo_defs demo_bitor_values)

subsection \<open>blind\<close>

lemma blind_Inr:
  "transform \<lparr>R = red c, G = green c, B = blue c\<rparr> blindness False = Inr v \<Longrightarrow>
   blind transform c blindness =
     Inr \<lparr>red = bitor (R v) (Fin 0), green = bitor (G v) (Fin 0),
          blue = bitor (B v) (Fin 0), alpha = alpha c\<rparr>"
  by (simp add: blind_def)

lemma blind_Inl:
  "transform \<lparr>R = red c, G = green c, B = blue c\<rparr> blindness False = Inl e \<Longrightarrow>
   blind transform c blindness = Inl e"
  by (simp add: blind_def)



text \<open>
  C7. Whenever the transform returns, \<open>blind\<close> returns a colour whose alpha is the alpha
  of its argument; red, green and blue are the results of the transform after \<open>| 0\<close>. The
  transform is handed red, green and blue only.
\<close>

theorem blind_keeps_alpha:
  assumes "transform \<lparr>R = red c, G = green c, B = blue c\<rparr> blindness False = Inr v"
  shows "\<exists>c'. blind transform c blindness = Inr c' \<and> alpha c' = alpha c \<and>
           red c' = bitor (R v) (Fin 0) \<and> green c' = bitor (G v) (Fin 0) \<and>
           blue c' = bitor (B v) (Fin 0)"
  using assms by (simp add: blind_Inr)

text \<open>The theorem at the colour (10, 20, 30) with alpha 0.25.\<close>

theorem blind_keeps_alpha_witness:
  "\<exists>c'. blind meanTransform (Color (Fin 10) (Fin 20) (Fin 30) (Fin (1 / 4))) ''tritan'' = Inr c' \<and>
         alpha c' = Fin (1 / 4) \<and> red c' = Fin 15 \<and> green c' = Fin 25 \<and> blue c' = Fin 20"
proof -
  let ?c = "Color (Fin 10) (Fin 20) (Fin 30) (Fin (1 / 4))"
  have t: "meanTransform \<lparr>R = red ?c, G = green ?c, B = blue ?c\<rparr> ''tritan'' False =
             Inr \<lparr>R = Fin 15, G = Fin 25, B = Fin 20\<rparr>"
    by (simp add: meanTransform_def Color_def)
  show ?thesis
    using blind_keeps_alpha [where transform = meanTransform and c = ?c, OF t]
    by (simp add: demo_bitor_values Color_def)
qed




subsection \<open>The required ratio\<close>

text \<open>
  C6. With the classification of large text as the specification describes it, the
  required ratio is defined for every style and is one of \<open>"3.0"\<close> and \<open>"4.5"\<close>. It is
  \<open>"3.0"\<close> exactly for bold text above the bold threshold and regular text above the
  regular threshold, and \<open>"4.5"\<close> for every other style, in particular whenever the size or
  the weight is missing.
\<close>

theorem requiredRatio_two_valued:
  assumes "isLargeFont env = isLargeFontSpec boldThreshold regularThreshold"
  shows "(requiredRatioOf env style = ''3.0'' \<or> requiredRatioOf env style = ''4.5'') \<and>
         (requiredRatioOf env style = ''3.0'') =
           (\<exists>px. fontSize style = Some px \<and>
              (fontWeight style = Some Bold \<and> boldThreshold < px \<or>
               fontWeight style = Some Regular \<and> regularThreshold < px)) \<and>
         (requiredRatioOf env style = ''4.5'') =
           (\<not> (\<exists>px. fontSize style = Some px \<and>
              (fontWeight style = Some Bold \<and> boldThreshold < px \<or>
               fontWeight style = Some Regular \<and> regularThreshold < px))) \<and>
         (fontSize style = None \<or> fontWeight style = None \<longrightarrow>
            requiredRatioOf env style = ''4.5'')"
  using assms
  by (auto simp add: requiredRatioOf_def isLargeFontSpec_def split: option.splits weight.splits)

text \<open>
  The theorem with the thresholds 19 and 24: regular text of size 30 and bold text of size
  20 require 3.0; regular text of size 20, bold text of size 19, text without a size and
  text of size 30 without a weight require 4.5.
\<close>

theorem requiredRatio_two_valued_witness:
  "requiredRatioOf policyEnv \<lparr>fontSize = Some 30, fontWeight = Some Regular\<rparr> = ''3.0'' \<and>
   requiredRatioOf policyEnv \<lparr>fontSize = Some 20, fontWeight = Some Bold\<rparr> = ''3.0'' \<and>
   requiredRatioOf policyEnv \<lparr>fontSize = Some 20, fontWeight = Some Regular\<rparr> = ''4.5'' \<and>
   requiredRatioOf policyEnv \<lparr>fontSize = Some 19, fontWeight = Some Bold\<rparr> = ''4.5'' \<and>
   requiredRatioOf policyEnv \<lparr>fontSize = None, fontWeight = Some Bold\<rparr> = ''4.5'' \<and>
   requiredRatioOf policyEnv \<lparr>fontSize = Some 30, fontWeight = None\<rparr> = ''4.5''"
proof -
  have policy: "isLargeFont policyEnv = isLargeFontSpec 19 24"
    by (simp add: policyEnv_def)
  note inst = requiredRatio_two_valued [OF policy]
  have a: "requiredRatioOf policyEnv \<lparr>fontSize = Some 30, fontWeight = Some Regular\<rparr> = ''3.0''"
    using inst [where style = "\<lparr>fontSize = Some 30, fontWeight = Some Regular\<rparr>"] by simp
  have b: "requiredRatioOf policyEnv \<lparr>fontSize = Some 20, fontWeight = Some Bold\<rparr> = ''3.0''"
    using inst [where style = "\<lparr>fontSize = Some 20, fontWeight = Some Bold\<rparr>"] by simp
  have c: "requiredRatioOf policyEnv \<lparr>fontSize = Some 20, fontWeight = Some Regular\<rparr> = ''4.5''"
    using inst [where style = "\<lparr>fontSize = Some 20, fontWeight = Some Regular\<rparr>"] by simp
  have d: "requiredRatioOf policyEnv \<lparr>fontSize = Some 19, fontWeight = Some Bold\<rparr> = ''4.5''"
    using inst [where style = "\<lparr>fontSize = Some 19, fontWeight = Some Bold\<rparr>"] by simp
  have e: "requiredRatioOf policyEnv \<lparr>fontSize = None, fontWeight = Some Bold\<rparr> = ''4.5''"
    using inst [where style = "\<lparr>fontSize = None, fontWeight = Some Bold\<rparr>"] by simp
  have f: "requiredRatioOf policyEnv \<lparr>fontSize = Some 30, fontWeight = None\<rparr> = ''4.5''"
    using inst [where style = "\<lparr>fontSize = Some 30, fontWeight = None\<rparr>"] by simp
  from a b c d e f show ?thesis by simp
qed

subsection \<open>runOneType: the four cases\<close>

lemma runOneType_blind_fg_fails:
  "blind (blinder env) fgColor blindness = Inl e \<Longrightarrow>
   runOneType env el combinations fgColor bgColor style blindness blindnessName tr = Inl e"
  by (simp add: runOneType_def)

lemma runOneType_blind_bg_fails:
  "blind (blinder env) fgColor blindness = Inr fg' \<Longrightarrow>
   blind (blinder env) bgColor blindness = Inl e \<Longrightarrow>
   runOneType env el combinations fgColor bgColor style blindness blindnessName tr = Inl e"
  by (simp add: runOneType_def)

lemma runOneType_pass_unseen:
  assumes "blind (blinder env) fgColor blindness = Inr fg'"
    and "blind (blinder env) bgColor blindness = Inr bg'"
    and "\<not> isLowContrast env (contrastRatioOf env fg' bg') style"
    and "combinations (combinationKey env fgColor bgColor blindness (requiredRatioOf env style)) = None"
  shows "runOneType env el combinations fgColor bgColor style blindness blindnessName tr =
           Inr (combinations(combinationKey env fgColor bgColor blindness (requiredRatioOf env style) \<mapsto> Marked),
                tr @ [AnnotateLabel el (contrastRatioOf env fg' bg') ''tota11y-label-success''])"
  using assms by (simp add: runOneType_def)

lemma runOneType_pass_seen:
  assumes "blind (blinder env) fgColor blindness = Inr fg'"
    and "blind (blinder env) bgColor blindness = Inr bg'"
    and "\<not> isLowContrast env (contrastRatioOf env fg' bg') style"
    and "combinations (combinationKey env fgColor bgColor blindness (requiredRatioOf env style)) = Some v"
  shows "runOneType env el combinations fgColor bgColor style blindness blindnessName tr =
           Inr (combinations, tr)"
  using assms by (simp add: runOneType_def)

lemma runOneType_fail_unseen:
  assumes "blind (blinder env) fgColor blindness = Inr fg'"
    and "blind (blinder env) bgColor blindness = Inr bg'"
    and "isLowContrast env (contrastRatioOf env fg' bg') style"
    and "combinations (combinationKey env fgColor bgColor blindness (requiredRatioOf env style)) = None"
    and "addError env fg' bg' blindnessName (contrastRatioOf env fg' bg') (requiredRatioOf env style) el tr = (h, tr1)"
  shows "runOneType env el combinations fgColor bgColor style blindness blindnessName tr =
           Inr (combinations(combinationKey env fgColor bgColor blindness (requiredRatioOf env style) \<mapsto> Reported h),
                tr1 @ [AnnotateErrorLabel el (contrastRatioOf env fg' bg')
                         ''This contrast is insufficient at this size.'' (Some (Reported h))])"
  using assms by (simp add: runOneType_def)

lemma runOneType_fail_seen:
  assumes "blind (blinder env) fgColor blindness = Inr fg'"
    and "blind (blinder env) bgColor blindness = Inr bg'"
    and "isLowContrast env (contrastRatioOf env fg' bg') style"
    and "combinations (combinationKey env fgColor bgColor blindness (requiredRatioOf env style)) = Some v"
  shows "runOneType env el combinations fgColor bgColor style blindness blindnessName tr =
           Inr (combinations,
                tr @ [AnnotateErrorLabel el (contrastRatioOf env fg' bg')
                        ''This contrast is insufficient at this size.'' (Some v)])"
  using assms by (simp add: runOneType_def)

lemma addError_events:
  "addError env fgColor bgColor blindness contrastRatio requiredRatio el tr = (h, tr1) \<Longrightarrow>
   \<exists>title description. tr1 = tr @ [PluginError title description el h]"
  by (auto simp add: addError_def Let_def)

lemma runOneType_keeps_entries:
  assumes "runOneType env el combinations fgColor bgColor style blindness blindnessName tr = Inr (combinations', tr')"
    and "combinations k = Some v"
  shows "combinations' k = Some v"
  using assms
  by (auto simp add: runOneType_def Let_def split: sum.splits if_splits prod.splits)

lemma runOneType_extends_events:
  assumes "runOneType env el combinations fgColor bgColor style blindness blindnessName tr = Inr (combinations', tr')"
  shows "\<exists>new. tr' = tr @ new"
  using assms
  by (auto simp add: runOneType_def addError_def Let_def split: sum.splits if_splits prod.splits)

subsection \<open>runOneType: reports and labels\<close>

text \<open>
  C1. A failing sample (the ratio of the simulated pair is low) whose key already has an
  entry \<open>v\<close> makes no call of \<open>this.error\<close>: the only call is \<open>annotate.errorLabel\<close>,
  which is handed the stored \<open>v\<close>, and the map is unchanged. A failing sample whose key is
  new calls \<open>this.error\<close> once, stores the returned handle \<open>h\<close> and passes it to
  \<open>annotate.errorLabel\<close>; registering the same sample again (from any element \<open>el2\<close>)
  adds one more error label with the same \<open>h\<close> and no report, so the two registrations
  make exactly one report. An entry, once stored, is kept by every later call.
\<close>

theorem failing_sample_reported_once:
  assumes fg: "blind (blinder env) fgColor blindness = Inr fg'"
    and bg: "blind (blinder env) bgColor blindness = Inr bg'"
    and low: "isLowContrast env (contrastRatioOf env fg' bg') style"
  defines "key \<equiv> combinationKey env fgColor bgColor blindness (requiredRatioOf env style)"
    and "ratio \<equiv> contrastRatioOf env fg' bg'"
    and "expanded \<equiv> ''This contrast is insufficient at this size.''"
  shows "(\<forall>v. combinations key = Some v \<longrightarrow>
            runOneType env el combinations fgColor bgColor style blindness blindnessName tr =
              Inr (combinations, tr @ [AnnotateErrorLabel el ratio expanded (Some v)])) \<and>
         (combinations key = None \<longrightarrow>
            (\<exists>h title description combinations1 tr1.
               runOneType env el combinations fgColor bgColor style blindness blindnessName tr =
                 Inr (combinations1, tr1) \<and>
               combinations1 = combinations(key \<mapsto> Reported h) \<and>
               tr1 = tr @ [PluginError title description el h,
                           AnnotateErrorLabel el ratio expanded (Some (Reported h))] \<and>
               runOneType env el2 combinations1 fgColor bgColor style blindness blindnessName tr1 =
                 Inr (combinations1,
                      tr1 @ [AnnotateErrorLabel el2 ratio expanded (Some (Reported h))]) \<and>
               length (filter isReport
                         (tr1 @ [AnnotateErrorLabel el2 ratio expanded (Some (Reported h))])) =
                 length (filter isReport tr) + 1)) \<and>
         (\<forall>k v el3 fg3 bg3 style3 blindness3 name3 tr3 combinations3 tr4.
            combinations k = Some v \<and>
            runOneType env el3 combinations fg3 bg3 style3 blindness3 name3 tr3 =
              Inr (combinations3, tr4) \<longrightarrow>
            combinations3 k = Some v)"
proof (intro conjI allI impI)
  fix v
  assume "combinations key = Some v"
  then show "runOneType env el combinations fgColor bgColor style blindness blindnessName tr =
               Inr (combinations, tr @ [AnnotateErrorLabel el ratio expanded (Some v)])"
    unfolding key_def ratio_def expanded_def
    using fg bg low by (intro runOneType_fail_seen)
next
  assume unseen: "combinations key = None"
  obtain h tr1 where add:
    "addError env fg' bg' blindnessName ratio (requiredRatioOf env style) el tr = (h, tr1)"
    by (cases "addError env fg' bg' blindnessName ratio (requiredRatioOf env style) el tr")
  from addError_events [OF add] obtain title description
    where tr1: "tr1 = tr @ [PluginError title description el h]"
    by blast
  let ?c1 = "combinations(key \<mapsto> Reported h)"
  let ?t1 = "tr @ [PluginError title description el h,
                   AnnotateErrorLabel el ratio expanded (Some (Reported h))]"
  have first: "runOneType env el combinations fgColor bgColor style blindness blindnessName tr =
                 Inr (?c1, ?t1)"
    using runOneType_fail_unseen
            [where combinations = combinations,
             OF fg bg low unseen [unfolded key_def] add [unfolded ratio_def]]
    by (simp add: key_def ratio_def expanded_def tr1)
  have "?c1 key = Some (Reported h)"
    by simp
  then have second:
    "runOneType env el2 ?c1 fgColor bgColor style blindness blindnessName ?t1 =
       Inr (?c1, ?t1 @ [AnnotateErrorLabel el2 ratio expanded (Some (Reported h))])"
    unfolding key_def ratio_def expanded_def
    using fg bg low by (intro runOneType_fail_seen)
  have count: "length (filter isReport
                 (?t1 @ [AnnotateErrorLabel el2 ratio expanded (Some (Reported h))])) =
               length (filter isReport tr) + 1"
    by simp
  show "\<exists>h title description combinations1 tr1.
          runOneType env el combinations fgColor bgColor style blindness blindnessName tr =
            Inr (combinations1, tr1) \<and>
          combinations1 = combinations(key \<mapsto> Reported h) \<and>
          tr1 = tr @ [PluginError title description el h,
                      AnnotateErrorLabel el ratio expanded (Some (Reported h))] \<and>
          runOneType env el2 combinations1 fgColor bgColor style blindness blindnessName tr1 =
            Inr (combinations1,
                 tr1 @ [AnnotateErrorLabel el2 ratio expanded (Some (Reported h))]) \<and>
          length (filter isReport
                    (tr1 @ [AnnotateErrorLabel el2 ratio expanded (Some (Reported h))])) =
            length (filter isReport tr) + 1"
    using first second count by blast
next
  fix k v el3 fg3 bg3 style3 blindness3 name3 tr3 combinations3 tr4
  assume "combinations k = Some v \<and>
          runOneType env el3 combinations fg3 bg3 style3 blindness3 name3 tr3 =
            Inr (combinations3, tr4)"
  then have "runOneType env el3 combinations fg3 bg3 style3 blindness3 name3 tr3 =
               Inr (combinations3, tr4)"
    and "combinations k = Some v"
    by simp_all
  then show "combinations3 k = Some v"
    by (rule runOneType_keeps_entries)
qed

text \<open>
  The theorem at the colour (10, 20, 30) on white for \<open>protan\<close>, registered from element 1
  and again from element 2; and registered from element 4 when the key already has an entry
  with the handle 7.
\<close>

theorem failing_sample_reported_once_witness:
  "runOneType demoEnv 1 Map.empty (Color (Fin 10) (Fin 20) (Fin 30) (Fin 1)) white ''normal''
       ''protan'' ''protanopia'' [] =
     Inr ([''#0a141e/#ffffff/protan/4.5'' \<mapsto> Reported 0],
          [PluginError ''Insufficient contrast for protanopia'' ''#0f1914 on #ffffff: 4.49 < 4.5'' 1 0,
           AnnotateErrorLabel 1 ''4.49'' ''This contrast is insufficient at this size.''
             (Some (Reported 0))]) \<and>
   runOneType demoEnv 2 [''#0a141e/#ffffff/protan/4.5'' \<mapsto> Reported 0]
       (Color (Fin 10) (Fin 20) (Fin 30) (Fin 1)) white ''normal'' ''protan'' ''protanopia''
       [PluginError ''Insufficient contrast for protanopia'' ''#0f1914 on #ffffff: 4.49 < 4.5'' 1 0,
        AnnotateErrorLabel 1 ''4.49'' ''This contrast is insufficient at this size.''
          (Some (Reported 0))] =
     Inr ([''#0a141e/#ffffff/protan/4.5'' \<mapsto> Reported 0],
          [PluginError ''Insufficient contrast for protanopia'' ''#0f1914 on #ffffff: 4.49 < 4.5'' 1 0,
           AnnotateErrorLabel 1 ''4.49'' ''This contrast is insufficient at this size.''
             (Some (Reported 0)),
           AnnotateErrorLabel 2 ''4.49'' ''This contrast is insufficient at this size.''
             (Some (Reported 0))]) \<and>
   runOneType demoEnv 4 [''#0a141e/#ffffff/protan/4.5'' \<mapsto> Reported 7]
       (Color (Fin 10) (Fin 20) (Fin 30) (Fin 1)) white ''normal'' ''protan'' ''protanopia'' [] =
     Inr ([''#0a141e/#ffffff/protan/4.5'' \<mapsto> Reported 7],
          [AnnotateErrorLabel 4 ''4.49'' ''This contrast is insufficient at this size.''
             (Some (Reported 7))])"
proof -
  let ?fg = "Color (Fin 10) (Fin 20) (Fin 30) (Fin 1)"
  let ?sim = "Color (Fin 15) (Fin 25) (Fin 20) (Fin 1)"
  have fg: "blind (blinder demoEnv) ?fg ''protan'' = Inr ?sim"
    by (rule demo_blind_first)
  have bg: "blind (blinder demoEnv) white ''protan'' = Inr white"
    by (simp add: demo_blind_white)
  have low: "isLowContrast demoEnv (contrastRatioOf demoEnv ?sim white) ''normal''"
    by (simp add: demo_defs)
  have key: "combinationKey demoEnv ?fg white ''protan'' (requiredRatioOf demoEnv ''normal'') =
               ''#0a141e/#ffffff/protan/4.5''"
    by (simp add: demo_defs)
  have ratio: "contrastRatioOf demoEnv ?sim white = ''4.49''"
    by (simp add: demo_defs)
  have direct:
    "runOneType demoEnv 1 Map.empty ?fg white ''normal'' ''protan'' ''protanopia'' [] =
       Inr ([''#0a141e/#ffffff/protan/4.5'' \<mapsto> Reported 0],
            [PluginError ''Insufficient contrast for protanopia''
               ''#0f1914 on #ffffff: 4.49 < 4.5'' 1 0,
             AnnotateErrorLabel 1 ''4.49'' ''This contrast is insufficient at this size.''
               (Some (Reported 0))])"
  proof -
    have unseen: "Map.empty (combinationKey demoEnv ?fg white ''protan''
                    (requiredRatioOf demoEnv ''normal'')) = (None :: nat entry option)"
      by simp
    have add: "addError demoEnv ?sim white ''protanopia'' (contrastRatioOf demoEnv ?sim white)
                 (requiredRatioOf demoEnv ''normal'') 1 [] =
               (0, [PluginError ''Insufficient contrast for protanopia''
                      ''#0f1914 on #ffffff: 4.49 < 4.5'' 1 0])"
      by (simp add: addError_def demo_defs)
    show ?thesis
      using runOneType_fail_unseen [where combinations = Map.empty, OF fg bg low unseen add]
      by (simp add: key ratio)
  qed
  note inst = failing_sample_reported_once
               [where combinations = Map.empty and el = 1 and ?el2.0 = 2 and tr = "[]"
                  and blindnessName = "''protanopia''", OF fg bg low, unfolded key ratio]
  from inst obtain h title description where
    first: "runOneType demoEnv 1 Map.empty ?fg white ''normal'' ''protan'' ''protanopia'' [] =
              Inr ([''#0a141e/#ffffff/protan/4.5'' \<mapsto> Reported h],
                   [PluginError title description 1 h,
                    AnnotateErrorLabel 1 ''4.49'' ''This contrast is insufficient at this size.''
                      (Some (Reported h))])"
    and second:
      "runOneType demoEnv 2 [''#0a141e/#ffffff/protan/4.5'' \<mapsto> Reported h] ?fg white ''normal''
           ''protan'' ''protanopia''
           [PluginError title description 1 h,
            AnnotateErrorLabel 1 ''4.49'' ''This contrast is insufficient at this size.''
              (Some (Reported h))] =
         Inr ([''#0a141e/#ffffff/protan/4.5'' \<mapsto> Reported h],
              [PluginError title description 1 h,
               AnnotateErrorLabel 1 ''4.49'' ''This contrast is insufficient at this size.''
                 (Some (Reported h)),
               AnnotateErrorLabel 2 ''4.49'' ''This contrast is insufficient at this size.''
                 (Some (Reported h))])"
    by auto
  from first direct have "h = 0" and "title = ''Insufficient contrast for protanopia''"
    and "description = ''#0f1914 on #ffffff: 4.49 < 4.5''"
    by simp_all
  with second direct have twice:
    "runOneType demoEnv 1 Map.empty ?fg white ''normal'' ''protan'' ''protanopia'' [] =
       Inr ([''#0a141e/#ffffff/protan/4.5'' \<mapsto> Reported 0],
            [PluginError ''Insufficient contrast for protanopia''
               ''#0f1914 on #ffffff: 4.49 < 4.5'' 1 0,
             AnnotateErrorLabel 1 ''4.49'' ''This contrast is insufficient at this size.''
               (Some (Reported 0))]) \<and>
     runOneType demoEnv 2 [''#0a141e/#ffffff/protan/4.5'' \<mapsto> Reported 0] ?fg white ''normal''
         ''protan'' ''protanopia''
         [PluginError ''Insufficient contrast for protanopia''
            ''#0f1914 on #ffffff: 4.49 < 4.5'' 1 0,
          AnnotateErrorLabel 1 ''4.49'' ''This contrast is insufficient at this size.''
            (Some (Reported 0))] =
       Inr ([''#0a141e/#ffffff/protan/4.5'' \<mapsto> Reported 0],
            [PluginError ''Insufficient contrast for protanopia''
               ''#0f1914 on #ffffff: 4.49 < 4.5'' 1 0,
             AnnotateErrorLabel 1 ''4.49'' ''This contrast is insufficient at this size.''
               (Some (Reported 0)),
             AnnotateErrorLabel 2 ''4.49'' ''This contrast is insufficient at this size.''
               (Some (Reported 0))])"
    by simp
  have seen:
    "runOneType demoEnv 4 [''#0a141e/#ffffff/protan/4.5'' \<mapsto> Reported 7] ?fg white ''normal''
         ''protan'' ''protanopia'' [] =
       Inr ([''#0a141e/#ffffff/protan/4.5'' \<mapsto> Reported 7],
            [AnnotateErrorLabel 4 ''4.49'' ''This contrast is insufficient at this size.''
               (Some (Reported 7))])"
    using failing_sample_reported_once
            [where combinations = "[''#0a141e/#ffffff/protan/4.5'' \<mapsto> Reported 7]" and el = 4
               and tr = "[]" and blindnessName = "''protanopia''", OF fg bg low,
             unfolded key ratio, THEN conjunct1, rule_format, of "Reported 7"]
    by simp
  from twice seen show ?thesis
    by (intro conjI) simp_all
qed

text \<open>
  C5. A passing sample whose key is new calls \<open>annotate.label\<close> once (adding the class
  \<open>tota11y-label-success\<close>) and marks the key; a passing sample whose key has an entry
  makes no call at all and leaves the map as it is. An entry, once stored, is kept by every
  later call, so every later passing occurrence of the key is of the second kind.
\<close>

theorem passing_sample_labelled_once:
  assumes fg: "blind (blinder env) fgColor blindness = Inr fg'"
    and bg: "blind (blinder env) bgColor blindness = Inr bg'"
    and ok: "\<not> isLowContrast env (contrastRatioOf env fg' bg') style"
  defines "key \<equiv> combinationKey env fgColor bgColor blindness (requiredRatioOf env style)"
    and "ratio \<equiv> contrastRatioOf env fg' bg'"
  shows "(combinations key = None \<longrightarrow>
            runOneType env el combinations fgColor bgColor style blindness blindnessName tr =
              Inr (combinations(key \<mapsto> Marked),
                   tr @ [AnnotateLabel el ratio ''tota11y-label-success''])) \<and>
         (\<forall>v. combinations key = Some v \<longrightarrow>
            runOneType env el combinations fgColor bgColor style blindness blindnessName tr =
              Inr (combinations, tr)) \<and>
         (\<forall>k v el3 fg3 bg3 style3 blindness3 name3 tr3 combinations3 tr4.
            combinations k = Some v \<and>
            runOneType env el3 combinations fg3 bg3 style3 blindness3 name3 tr3 =
              Inr (combinations3, tr4) \<longrightarrow>
            combinations3 k = Some v)"
proof (intro conjI allI impI)
  assume "combinations key = None"
  then show "runOneType env el combinations fgColor bgColor style blindness blindnessName tr =
               Inr (combinations(key \<mapsto> Marked),
                    tr @ [AnnotateLabel el ratio ''tota11y-label-success''])"
    unfolding key_def ratio_def
    using fg bg ok by (intro runOneType_pass_unseen)
next
  fix v
  assume "combinations key = Some v"
  then show "runOneType env el combinations fgColor bgColor style blindness blindnessName tr =
               Inr (combinations, tr)"
    unfolding key_def
    using fg bg ok by (intro runOneType_pass_seen)
next
  fix k v el3 fg3 bg3 style3 blindness3 name3 tr3 combinations3 tr4
  assume "combinations k = Some v \<and>
          runOneType env el3 combinations fg3 bg3 style3 blindness3 name3 tr3 =
            Inr (combinations3, tr4)"
  then have "runOneType env el3 combinations fg3 bg3 style3 blindness3 name3 tr3 =
               Inr (combinations3, tr4)"
    and "combinations k = Some v"
    by simp_all
  then show "combinations3 k = Some v"
    by (rule runOneType_keeps_entries)
qed

text \<open>
  The theorem at black on white for \<open>protan\<close>: element 1 is labelled with 21.00, element 2
  with the same colours is not.
\<close>

theorem passing_sample_labelled_once_witness:
  "runOneType demoEnv 1 Map.empty black white ''normal'' ''protan'' ''protanopia'' [] =
     Inr ([''#000000/#ffffff/protan/4.5'' \<mapsto> Marked],
          [AnnotateLabel 1 ''21.00'' ''tota11y-label-success'']) \<and>
   runOneType demoEnv 2 [''#000000/#ffffff/protan/4.5'' \<mapsto> Marked] black white ''normal''
       ''protan'' ''protanopia'' [AnnotateLabel 1 ''21.00'' ''tota11y-label-success''] =
     Inr ([''#000000/#ffffff/protan/4.5'' \<mapsto> Marked],
          [AnnotateLabel 1 ''21.00'' ''tota11y-label-success''])"
proof -
  have fg: "blind (blinder demoEnv) black ''protan'' = Inr black"
    by (simp add: demo_blind_black)
  have bg: "blind (blinder demoEnv) white ''protan'' = Inr white"
    by (simp add: demo_blind_white)
  have ok: "\<not> isLowContrast demoEnv (contrastRatioOf demoEnv black white) ''normal''"
    by (simp add: demo_defs)
  have key: "combinationKey demoEnv black white ''protan'' (requiredRatioOf demoEnv ''normal'') =
               ''#000000/#ffffff/protan/4.5''"
    by (simp add: demo_defs)
  have ratio: "contrastRatioOf demoEnv black white = ''21.00''"
    by (simp add: demo_defs)
  note first = passing_sample_labelled_once
                 [where combinations = Map.empty and el = 1 and tr = "[]"
                    and blindnessName = "''protanopia''", OF fg bg ok, unfolded key ratio]
  note second = passing_sample_labelled_once
                 [where combinations = "[''#000000/#ffffff/protan/4.5'' \<mapsto> Marked]" and el = 2
                    and tr = "[AnnotateLabel 1 ''21.00'' ''tota11y-label-success'']"
                    and blindnessName = "''protanopia''", OF fg bg ok, unfolded key ratio]
  show ?thesis
    using first second by simp
qed

subsection \<open>runOneType: the key\<close>

text \<open>A string is cut at its first \<open>/\<close> in one way only.\<close>

lemma split_at_slash:
  assumes "CHR ''/'' \<notin> set a" and "CHR ''/'' \<notin> set b"
    and "a @ CHR ''/'' # x = b @ CHR ''/'' # y"
  shows "a = b \<and> x = y"
  using assms
proof (induction a arbitrary: b)
  case Nil
  then show ?case by (cases b) auto
next
  case (Cons c a)
  then show ?case by (cases b) auto
qed

lemma combinationKey_inj:
  assumes "CHR ''/'' \<notin> set (colorToString env fg1)" "CHR ''/'' \<notin> set (colorToString env fg2)"
    and "CHR ''/'' \<notin> set (colorToString env bg1)" "CHR ''/'' \<notin> set (colorToString env bg2)"
    and "combinationKey env fg1 bg1 blindness1 r1 = combinationKey env fg2 bg2 blindness2 r2"
  shows "colorToString env fg1 = colorToString env fg2 \<and> colorToString env bg1 = colorToString env bg2"
proof -
  from assms(5) have
    "colorToString env fg1 @ CHR ''/'' # (colorToString env bg1 @ CHR ''/'' # (blindness1 @ ''/'' @ r1)) =
     colorToString env fg2 @ CHR ''/'' # (colorToString env bg2 @ CHR ''/'' # (blindness2 @ ''/'' @ r2))"
    by (simp add: combinationKey_def)
  from split_at_slash [OF assms(1,2) this]
  have f: "colorToString env fg1 = colorToString env fg2"
    and rest: "colorToString env bg1 @ CHR ''/'' # (blindness1 @ ''/'' @ r1) =
               colorToString env bg2 @ CHR ''/'' # (blindness2 @ ''/'' @ r2)"
    by simp_all
  from split_at_slash [OF assms(3,4) rest] f show ?thesis by simp
qed

lemma runOneType_unseen:
  assumes fg: "blind (blinder env) fgColor blindness = Inr fg'"
    and bg: "blind (blinder env) bgColor blindness = Inr bg'"
    and unseen: "combinations (combinationKey env fgColor bgColor blindness (requiredRatioOf env style)) = None"
  shows "\<exists>x new. runOneType env el combinations fgColor bgColor style blindness blindnessName tr =
           Inr (combinations(combinationKey env fgColor bgColor blindness (requiredRatioOf env style) \<mapsto> x),
                tr @ new) \<and>
           length (filter opensFinding new) = 1"
proof (cases "isLowContrast env (contrastRatioOf env fg' bg') style")
  case False
  have "length (filter opensFinding
          [AnnotateLabel el (contrastRatioOf env fg' bg') ''tota11y-label-success'']) = 1"
    by (simp add: opensFinding_def)
  then show ?thesis
    using runOneType_pass_unseen [where combinations = combinations, OF fg bg False unseen]
    by blast
next
  case True
  obtain h tr1 where add:
    "addError env fg' bg' blindnessName (contrastRatioOf env fg' bg') (requiredRatioOf env style) el tr = (h, tr1)"
    by (cases "addError env fg' bg' blindnessName (contrastRatioOf env fg' bg') (requiredRatioOf env style) el tr")
  from addError_events [OF add] obtain title description
    where tr1: "tr1 = tr @ [PluginError title description el h]"
    by blast
  let ?new = "[PluginError title description el h,
               AnnotateErrorLabel el (contrastRatioOf env fg' bg')
                 ''This contrast is insufficient at this size.'' (Some (Reported h))]"
  have "runOneType env el combinations fgColor bgColor style blindness blindnessName tr =
          Inr (combinations(combinationKey env fgColor bgColor blindness (requiredRatioOf env style) \<mapsto> Reported h),
               tr @ ?new)"
    using runOneType_fail_unseen [where combinations = combinations, OF fg bg True unseen add]
    by (simp add: tr1)
  moreover have "length (filter opensFinding ?new) = 1"
    by (simp add: opensFinding_def)
  ultimately show ?thesis
    by blast
qed

text \<open>
  C9. The key is the concatenation of the string forms of the two colours as passed in,
  the kind of blindness and the required ratio, separated by \<open>/\<close>; the transform has no
  part in it. Two samples whose colours print differently (colour strings contain no
  \<open>/\<close>) have different keys, and when neither key has an entry, registering one after
  the other gives each its own entry and its own label or report, also when both pairs
  are simulated to the same pair of colours and so have the same ratio.
\<close>

theorem key_built_from_original_colours:
  fixes style
  assumes differ: "colorToString env fg1 \<noteq> colorToString env fg2 \<or>
                   colorToString env bg1 \<noteq> colorToString env bg2"
    and slash: "CHR ''/'' \<notin> set (colorToString env fg1)" "CHR ''/'' \<notin> set (colorToString env fg2)"
               "CHR ''/'' \<notin> set (colorToString env bg1)" "CHR ''/'' \<notin> set (colorToString env bg2)"
    and sim: "blind (blinder env) fg1 blindness = Inr fgSim"
             "blind (blinder env) fg2 blindness = Inr fgSim"
             "blind (blinder env) bg1 blindness = Inr bgSim"
             "blind (blinder env) bg2 blindness = Inr bgSim"
  defines "key1 \<equiv> combinationKey env fg1 bg1 blindness (requiredRatioOf env style)"
    and "key2 \<equiv> combinationKey env fg2 bg2 blindness (requiredRatioOf env style)"
  assumes unseen: "combinations key1 = None" "combinations key2 = None"
  shows "key1 = colorToString env fg1 @ ''/'' @ colorToString env bg1 @ ''/'' @ blindness @ ''/'' @
                  requiredRatioOf env style \<and>
         key1 = combinationKey (env\<lparr>blinder := other\<rparr>) fg1 bg1 blindness
                  (requiredRatioOf (env\<lparr>blinder := other\<rparr>) style) \<and>
         key1 \<noteq> key2 \<and>
         (\<exists>x y new1 new2.
            runOneType env el1 combinations fg1 bg1 style blindness blindnessName tr =
              Inr (combinations(key1 \<mapsto> x), tr @ new1) \<and>
            runOneType env el2 (combinations(key1 \<mapsto> x)) fg2 bg2 style blindness blindnessName
                (tr @ new1) =
              Inr (combinations(key1 \<mapsto> x, key2 \<mapsto> y), tr @ new1 @ new2) \<and>
            length (filter opensFinding new1) = 1 \<and> length (filter opensFinding new2) = 1)"
proof -
  have k1: "key1 = colorToString env fg1 @ ''/'' @ colorToString env bg1 @ ''/'' @ blindness @ ''/'' @
                  requiredRatioOf env style"
    by (simp add: key1_def combinationKey_def)
  have k1': "key1 = combinationKey (env\<lparr>blinder := other\<rparr>) fg1 bg1 blindness
                  (requiredRatioOf (env\<lparr>blinder := other\<rparr>) style)"
    by (simp add: key1_def combinationKey_def requiredRatioOf_def)
  have ne: "key1 \<noteq> key2"
  proof
    assume "key1 = key2"
    then have "colorToString env fg1 = colorToString env fg2 \<and>
               colorToString env bg1 = colorToString env bg2"
      unfolding key1_def key2_def using slash by (intro combinationKey_inj)
    with differ show False by simp
  qed
  from runOneType_unseen [where combinations = combinations, OF sim(1) sim(3) unseen(1) [unfolded key1_def]]
  obtain x new1 where
    first: "runOneType env el1 combinations fg1 bg1 style blindness blindnessName tr =
              Inr (combinations(key1 \<mapsto> x), tr @ new1)"
    and n1: "length (filter opensFinding new1) = 1"
    unfolding key1_def by blast
  have "(combinations(key1 \<mapsto> x)) key2 = None"
    using ne unseen(2) by simp
  from runOneType_unseen [where combinations = "combinations(key1 \<mapsto> x)",
         OF sim(2) sim(4) this [unfolded key2_def]]
  obtain y new2 where
    second: "runOneType env el2 (combinations(key1 \<mapsto> x)) fg2 bg2 style blindness blindnessName
                (tr @ new1) =
              Inr (combinations(key1 \<mapsto> x, key2 \<mapsto> y), (tr @ new1) @ new2)"
    and n2: "length (filter opensFinding new2) = 1"
    unfolding key2_def by blast
  from first second n1 n2 have
    "\<exists>x y new1 new2.
            runOneType env el1 combinations fg1 bg1 style blindness blindnessName tr =
              Inr (combinations(key1 \<mapsto> x), tr @ new1) \<and>
            runOneType env el2 (combinations(key1 \<mapsto> x)) fg2 bg2 style blindness blindnessName
                (tr @ new1) =
              Inr (combinations(key1 \<mapsto> x, key2 \<mapsto> y), tr @ new1 @ new2) \<and>
            length (filter opensFinding new1) = 1 \<and> length (filter opensFinding new2) = 1"
    by auto
  with k1 k1' ne show ?thesis by blast
qed

text \<open>
  The theorem at (10, 20, 30) and (10, 20, 31), both on white: both are simulated to
  (15, 25, 20), and each gets an entry of its own.
\<close>

theorem key_built_from_original_colours_witness:
  "combinationKey demoEnv (Color (Fin 10) (Fin 20) (Fin 30) (Fin 1)) white ''protan''
       (requiredRatioOf demoEnv ''normal'') = ''#0a141e/#ffffff/protan/4.5'' \<and>
   combinationKey demoEnv (Color (Fin 10) (Fin 20) (Fin 31) (Fin 1)) white ''protan''
       (requiredRatioOf demoEnv ''normal'') = ''#0a141f/#ffffff/protan/4.5'' \<and>
   (\<exists>x y new1 new2.
      runOneType demoEnv 1 Map.empty (Color (Fin 10) (Fin 20) (Fin 30) (Fin 1)) white ''normal''
          ''protan'' ''protanopia'' [] =
        Inr ([''#0a141e/#ffffff/protan/4.5'' \<mapsto> x], new1) \<and>
      runOneType demoEnv 2 [''#0a141e/#ffffff/protan/4.5'' \<mapsto> x]
          (Color (Fin 10) (Fin 20) (Fin 31) (Fin 1)) white ''normal'' ''protan'' ''protanopia'' new1 =
        Inr ([''#0a141e/#ffffff/protan/4.5'' \<mapsto> x, ''#0a141f/#ffffff/protan/4.5'' \<mapsto> y],
             new1 @ new2) \<and>
      length (filter opensFinding new1) = 1 \<and> length (filter opensFinding new2) = 1)"
proof -
  let ?fg1 = "Color (Fin 10) (Fin 20) (Fin 30) (Fin 1)"
  let ?fg2 = "Color (Fin 10) (Fin 20) (Fin 31) (Fin 1)"
  have differ: "colorToString demoEnv ?fg1 \<noteq> colorToString demoEnv ?fg2 \<or>
                colorToString demoEnv white \<noteq> colorToString demoEnv white"
    by (simp add: demo_defs)
  have slash: "CHR ''/'' \<notin> set (colorToString demoEnv ?fg1)"
    "CHR ''/'' \<notin> set (colorToString demoEnv ?fg2)"
    "CHR ''/'' \<notin> set (colorToString demoEnv white)"
    by (simp_all add: demo_defs)
  have bg: "blind (blinder demoEnv) white ''protan'' = Inr white"
    by (simp add: demo_blind_white)
  have key1: "combinationKey demoEnv ?fg1 white ''protan'' (requiredRatioOf demoEnv ''normal'') =
                ''#0a141e/#ffffff/protan/4.5''"
    by (simp add: demo_defs)
  have key2: "combinationKey demoEnv ?fg2 white ''protan'' (requiredRatioOf demoEnv ''normal'') =
                ''#0a141f/#ffffff/protan/4.5''"
    by (simp add: demo_defs)
  have unseen:
    "Map.empty (combinationKey demoEnv ?fg1 white ''protan'' (requiredRatioOf demoEnv ''normal'')) =
       (None :: nat entry option)"
    "Map.empty (combinationKey demoEnv ?fg2 white ''protan'' (requiredRatioOf demoEnv ''normal'')) =
       (None :: nat entry option)"
    by simp_all
  note inst = key_built_from_original_colours
                [where combinations = Map.empty and ?el1.0 = 1 and ?el2.0 = 2 and tr = "[]"
                   and style = "''normal''" and other = rejectingTransform
                   and blindnessName = "''protanopia''",
                 OF differ slash(1) slash(2) slash(3) slash(3) demo_blind_first demo_blind_second
                    bg bg unseen, THEN conjunct2, THEN conjunct2, THEN conjunct2,
                 unfolded key1 key2 append_Nil]
  from inst key1 key2 show ?thesis
    by blast
qed

subsection \<open>The threshold decision\<close>

lemma runOneType_flags_low_contrast:
  assumes fg: "blind (blinder env) fgColor blindness = Inr fg'"
    and bg: "blind (blinder env) bgColor blindness = Inr bg'"
  shows "\<exists>c t. runOneType env el combinations fgColor bgColor style blindness blindnessName tr =
           Inr (c, t) \<and>
           (length (filter isErrorLabel t) = length (filter isErrorLabel tr)) =
             (\<not> isLowContrast env (contrastRatioOf env fg' bg') style)"
proof -
  let ?key = "combinationKey env fgColor bgColor blindness (requiredRatioOf env style)"
  let ?ratio = "contrastRatioOf env fg' bg'"
  show ?thesis
  proof (cases "isLowContrast env ?ratio style")
    case False
    show ?thesis
    proof (cases "combinations ?key")
      case None
      show ?thesis
        using runOneType_pass_unseen [where combinations = combinations, OF fg bg False None] False
        by simp
    next
      case (Some v)
      show ?thesis
        using runOneType_pass_seen [where combinations = combinations, OF fg bg False Some] False
        by simp
    qed
  next
    case True
    show ?thesis
    proof (cases "combinations ?key")
      case None
      obtain h tr1 where add:
        "addError env fg' bg' blindnessName ?ratio (requiredRatioOf env style) el tr = (h, tr1)"
        by (cases "addError env fg' bg' blindnessName ?ratio (requiredRatioOf env style) el tr")
      from addError_events [OF add] obtain title description
        where tr1: "tr1 = tr @ [PluginError title description el h]"
        by blast
      show ?thesis
        using runOneType_fail_unseen [where combinations = combinations, OF fg bg True None add]
          True
        by (simp add: tr1)
    next
      case (Some v)
      show ?thesis
        using runOneType_fail_seen [where combinations = combinations, OF fg bg True Some] True
        by simp
    qed
  qed
qed

lemma spec_blind:
  "blind (blinder specEnv) c b = blind (blinder demoEnv) c b"
  by (simp add: specEnv_def)

text \<open>
  C4. For the threshold decision as the specification describes it: 4.50 passes the
  requirement 4.5 and 4.49 fails it, 3.00 passes 3.0 and 2.99 fails it; 10.00 passes 4.5
  (as strings, \<open>"10.00"\<close> sorts before \<open>"4.5"\<close>); in general the decision is the
  comparison of the two numbers. When \<open>isLowContrast\<close> is this decision, \<open>runOneType\<close>
  flags an element with an error label exactly when the ratio of the simulated pair is not
  sufficient for the required ratio of lines 59-60.
\<close>

theorem threshold_numeric_inclusive:
  "isSufficient ''4.50'' ''4.5'' \<and> \<not> isSufficient ''4.49'' ''4.5'' \<and>
   isSufficient ''3.00'' ''3.0'' \<and> \<not> isSufficient ''2.99'' ''3.0'' \<and>
   isSufficient ''10.00'' ''4.5'' \<and>
   (\<forall>x y. toNumber ratio = Some x \<and> toNumber requiredRatio = Some y \<longrightarrow>
      isSufficient ratio requiredRatio = (y \<le> x)) \<and>
   (isLowContrast env = isLowContrastSpec (isLargeFont env) \<and>
    blind (blinder env) fgColor blindness = Inr fg' \<and>
    blind (blinder env) bgColor blindness = Inr bg' \<longrightarrow>
      (\<exists>c t. runOneType env el combinations fgColor bgColor style blindness blindnessName tr =
         Inr (c, t) \<and>
         (length (filter isErrorLabel t) = length (filter isErrorLabel tr)) =
           isSufficient (contrastRatioOf env fg' bg') (requiredRatioOf env style)))"
proof (intro conjI allI impI)
  show "isSufficient ''4.50'' ''4.5''"
    by (simp add: isSufficient_def toNumber_def digitValue_def)
  show "\<not> isSufficient ''4.49'' ''4.5''"
    by (simp add: isSufficient_def toNumber_def digitValue_def)
  show "isSufficient ''3.00'' ''3.0''"
    by (simp add: isSufficient_def toNumber_def digitValue_def)
  show "\<not> isSufficient ''2.99'' ''3.0''"
    by (simp add: isSufficient_def toNumber_def digitValue_def)
  show "isSufficient ''10.00'' ''4.5''"
    by (simp add: isSufficient_def toNumber_def digitValue_def)
next
  fix x y
  assume "toNumber ratio = Some x \<and> toNumber requiredRatio = Some y"
  then show "isSufficient ratio requiredRatio = (y \<le> x)"
    by (simp add: isSufficient_def)
next
  assume a: "isLowContrast env = isLowContrastSpec (isLargeFont env) \<and>
             blind (blinder env) fgColor blindness = Inr fg' \<and>
             blind (blinder env) bgColor blindness = Inr bg'"
  then have low: "isLowContrast env (contrastRatioOf env fg' bg') style =
                    (\<not> isSufficient (contrastRatioOf env fg' bg') (requiredRatioOf env style))"
    by (simp add: isLowContrastSpec_def requiredRatioOf_def)
  from a have fg: "blind (blinder env) fgColor blindness = Inr fg'"
    and bg: "blind (blinder env) bgColor blindness = Inr bg'"
    by simp_all
  from runOneType_flags_low_contrast [OF fg bg, of el combinations style blindnessName tr]
  show "\<exists>c t. runOneType env el combinations fgColor bgColor style blindness blindnessName tr =
         Inr (c, t) \<and>
         (length (filter isErrorLabel t) = length (filter isErrorLabel tr)) =
           isSufficient (contrastRatioOf env fg' bg') (requiredRatioOf env style)"
    by (simp add: low)
qed

text \<open>
  The theorem at a pair of ratio 4.49: flagged at normal size, not flagged at large size.
\<close>

theorem threshold_numeric_inclusive_witness:
  "(\<exists>c t. runOneType specEnv 1 Map.empty (Color (Fin 10) (Fin 20) (Fin 30) (Fin 1)) white
              ''normal'' ''protan'' ''protanopia'' [] = Inr (c, t) \<and>
           length (filter isErrorLabel t) \<noteq> 0) \<and>
   (\<exists>c t. runOneType specEnv 2 Map.empty (Color (Fin 10) (Fin 20) (Fin 30) (Fin 1)) white
              ''large'' ''protan'' ''protanopia'' [] = Inr (c, t) \<and>
           length (filter isErrorLabel t) = 0) \<and>
   isSufficient ''4.49'' ''3.0'' \<and> \<not> isSufficient ''4.49'' ''4.5''"
proof -
  let ?fg = "Color (Fin 10) (Fin 20) (Fin 30) (Fin 1)"
  let ?sim = "Color (Fin 15) (Fin 25) (Fin 20) (Fin 1)"
  have low: "isLowContrast specEnv = isLowContrastSpec (isLargeFont specEnv)"
    by (simp add: specEnv_def)
  have fg: "blind (blinder specEnv) ?fg ''protan'' = Inr ?sim"
    by (simp add: spec_blind demo_blind_first)
  have bg: "blind (blinder specEnv) white ''protan'' = Inr white"
    by (simp add: spec_blind demo_blind_white)
  have ratio: "contrastRatioOf specEnv ?sim white = ''4.49''"
    by (simp add: specEnv_def demo_defs)
  have req: "requiredRatioOf specEnv ''normal'' = ''4.5''" "requiredRatioOf specEnv ''large'' = ''3.0''"
    by (simp_all add: specEnv_def demo_defs)
  have n: "toNumber ''4.49'' = Some (449 / 100)" "toNumber ''4.5'' = Some (9 / 2)"
    "toNumber ''3.0'' = Some 3"
    by (simp_all add: toNumber_def digitValue_def)
  note general = threshold_numeric_inclusive
                   [THEN conjunct2, THEN conjunct2, THEN conjunct2, THEN conjunct2, THEN conjunct2,
                    THEN conjunct1, rule_format]
  have s1: "isSufficient ''4.49'' ''3.0''"
    using general [of "''4.49''" "449 / 100" "''3.0''" 3] n by simp
  have s2: "\<not> isSufficient ''4.49'' ''4.5''"
    using general [of "''4.49''" "449 / 100" "''4.5''" "9 / 2"] n by simp
  note link = threshold_numeric_inclusive
                [THEN conjunct2, THEN conjunct2, THEN conjunct2, THEN conjunct2, THEN conjunct2,
                 THEN conjunct2, rule_format]
  have a: "\<exists>c t. runOneType specEnv 1 Map.empty ?fg white ''normal'' ''protan'' ''protanopia'' [] =
             Inr (c, t) \<and> length (filter isErrorLabel t) \<noteq> 0"
    using link [where env = specEnv and combinations = Map.empty and tr = "[]" and el = 1
                  and style = "''normal''" and blindnessName = "''protanopia''",
                OF conjI [OF low conjI [OF fg bg]]] s2
    by (simp add: ratio req)
  have b: "\<exists>c t. runOneType specEnv 2 Map.empty ?fg white ''large'' ''protan'' ''protanopia'' [] =
             Inr (c, t) \<and> length (filter isErrorLabel t) = 0"
    using link [where env = specEnv and combinations = Map.empty and tr = "[]" and el = 2
                  and style = "''large''" and blindnessName = "''protanopia''",
                OF conjI [OF low conjI [OF fg bg]]] s1
    by (simp add: ratio req)
  from a b s1 s2 show ?thesis by simp
qed

subsection \<open>run\<close>

lemma eachElement_keeps_parseColor:
  "eachElement env elements combinations w = Inr (combinations', w') \<Longrightarrow>
   parseColor w' = parseColor w"
proof (induction elements arbitrary: combinations w)
  case Nil
  then show ?case by simp
next
  case (Cons el els)
  then show ?case
    by (fastforce simp add: Let_def split: if_splits sum.splits prod.splits)
qed

lemma runOneType_returns:
  assumes "\<forall>c. \<exists>v. blinder env c blindness False = Inr v"
  shows "\<exists>r. runOneType env el combinations fgColor bgColor style blindness blindnessName tr = Inr r"
proof -
  from assms obtain v1 where
    "blinder env \<lparr>R = red fgColor, G = green fgColor, B = blue fgColor\<rparr> blindness False = Inr v1"
    by blast
  then obtain fg' where fg: "blind (blinder env) fgColor blindness = Inr fg'"
    by (simp add: blind_Inr)
  from assms obtain v2 where
    "blinder env \<lparr>R = red bgColor, G = green bgColor, B = blue bgColor\<rparr> blindness False = Inr v2"
    by blast
  then obtain bg' where bg: "blind (blinder env) bgColor blindness = Inr bg'"
    by (simp add: blind_Inr)
  show ?thesis
    by (simp add: runOneType_def fg bg Let_def split: prod.splits)
qed

lemma forBlindnesses_returns:
  assumes "\<forall>b \<in> set bs. \<forall>c. \<exists>v. blinder env c (fst b) False = Inr v"
  shows "\<exists>r. forBlindnesses env el fgColor bgColor style bs combinations tr = Inr r"
  using assms
proof (induction bs arbitrary: combinations tr)
  case Nil
  then show ?case by simp
next
  case (Cons b bs)
  from Cons.prems have "\<forall>c. \<exists>v. blinder env c (fst b) False = Inr v"
    by simp
  from runOneType_returns [OF this] obtain c1 t1 where
    "runOneType env el combinations fgColor bgColor style (fst b) (snd b) tr = Inr (c1, t1)"
    by fastforce
  moreover from Cons.prems have "\<forall>b \<in> set bs. \<forall>c. \<exists>v. blinder env c (fst b) False = Inr v"
    by simp
  from Cons.IH [OF this, of c1 t1] obtain r where
    "forBlindnesses env el fgColor bgColor style bs c1 t1 = Inr r"
    by blast
  ultimately show ?case by simp
qed

lemma eachElement_returns:
  assumes "\<forall>b \<in> set blindnesses. \<forall>c. \<exists>v. blinder env c (fst b) False = Inr v"
  shows "\<exists>r. eachElement env elements combinations w = Inr r"
proof (induction elements arbitrary: combinations w)
  case Nil
  then show ?case by simp
next
  case (Cons el els)
  let ?style = "getComputedStyle env el"
  let ?bg = "getBgColor env (parseColor w) ?style el"
  let ?fg = "getFgColor env (parseColor w) ?style el ?bg"
  from forBlindnesses_returns [OF assms] obtain c1 t1 where
    "forBlindnesses env el ?fg ?bg ?style blindnesses combinations (events w) = Inr (c1, t1)"
    by fastforce
  with Cons.IH show ?case by (simp add: Let_def)
qed

lemma demo_black_on_white:
  assumes "b = ''protan'' \<or> b = ''deutan'' \<or> b = ''tritan''"
    and "combinations (''#000000/#ffffff/'' @ b @ ''/4.5'') = None"
  shows "runOneType demoEnv el combinations black white ''normal'' b name tr =
           Inr (combinations(''#000000/#ffffff/'' @ b @ ''/4.5'' \<mapsto> Marked),
                tr @ [AnnotateLabel el ''21.00'' ''tota11y-label-success''])"
proof -
  have fg: "blind (blinder demoEnv) black b = Inr black"
    using assms(1) by (simp add: demo_blind_black)
  have bg: "blind (blinder demoEnv) white b = Inr white"
    using assms(1) by (simp add: demo_blind_white)
  have ratio: "contrastRatioOf demoEnv black white = ''21.00''"
    by (simp add: demo_defs)
  have ok: "\<not> isLowContrast demoEnv (contrastRatioOf demoEnv black white) ''normal''"
    by (simp add: ratio) (simp add: demoEnv_def)
  have key: "combinationKey demoEnv black white b (requiredRatioOf demoEnv ''normal'') =
               ''#000000/#ffffff/'' @ b @ ''/4.5''"
    by (simp add: demo_defs)
  show ?thesis
    using runOneType_pass_unseen
            [where combinations = combinations, OF fg bg ok assms(2) [folded key]]
    by (simp add: key ratio)
qed

lemma demo_forBlindnesses:
  "forBlindnesses demoEnv 3 black white ''normal'' blindnesses Map.empty [] =
     Inr ([''#000000/#ffffff/protan/4.5'' \<mapsto> Marked, ''#000000/#ffffff/deutan/4.5'' \<mapsto> Marked,
           ''#000000/#ffffff/tritan/4.5'' \<mapsto> Marked],
          [AnnotateLabel 3 ''21.00'' ''tota11y-label-success'',
           AnnotateLabel 3 ''21.00'' ''tota11y-label-success'',
           AnnotateLabel 3 ''21.00'' ''tota11y-label-success''])"
  by (simp add: blindnesses_def demo_black_on_white)

lemma demo_eachElement:
  "eachElement demoEnv [0, 3] Map.empty
       (demoWorld\<lparr>parseColor := parseColorProxy (parseColor demoWorld)\<rparr>) =
     Inr ([''#000000/#ffffff/protan/4.5'' \<mapsto> Marked, ''#000000/#ffffff/deutan/4.5'' \<mapsto> Marked,
           ''#000000/#ffffff/tritan/4.5'' \<mapsto> Marked],
          \<lparr>parseColor = parseColorProxy demoParseColor,
           events = [AnnotateLabel 3 ''21.00'' ''tota11y-label-success'',
                     AnnotateLabel 3 ''21.00'' ''tota11y-label-success'',
                     AnnotateLabel 3 ''21.00'' ''tota11y-label-success'']\<rparr>)"
proof -
  have sel: "\<not> hasDirectTextDescendant demoEnv 0" "hasDirectTextDescendant demoEnv 3"
    "\<not> insideTota11y demoEnv 3" "\<not> elementIsTransparent demoEnv 3"
    "\<not> elementHasZeroArea demoEnv 3" "getComputedStyle demoEnv 3 = ''normal''"
    "getBgColor demoEnv (parseColorProxy demoParseColor) ''normal'' 3 = white"
    "getFgColor demoEnv (parseColorProxy demoParseColor) ''normal'' 3 white = black"
    by (simp_all add: demoEnv_def parseColorProxy_def Color_def)
  show ?thesis
    by (simp add: sel demo_forBlindnesses demoWorld_def)
qed

text \<open>
  C10. The function installed over \<open>axs.utils.parseColor\<close> answers \<open>"transparent"\<close> with
  the colour (0, 0, 0, 0) and every other string as the saved function does. The loop over
  the elements runs with it installed and leaves it installed; when the loop returns, \<open>run\<close>
  puts the saved function back, so a completed run leaves the global as it found it. An
  exception in the loop ends \<open>run\<close> with that exception. When the transform returns for
  each of the three kinds of blindness, \<open>run\<close> completes.
\<close>

theorem run_restores_parseColor:
  "parseColorProxy original ''transparent'' = Some (Color (Fin 0) (Fin 0) (Fin 0) (Fin 0)) \<and>
   (\<forall>colorString. colorString \<noteq> ''transparent'' \<longrightarrow>
      parseColorProxy original colorString = original colorString) \<and>
   (\<forall>w'. run env elements w = Inr w' \<longrightarrow> parseColor w' = parseColor w) \<and>
   (\<forall>combinations' w2.
      eachElement env elements Map.empty (w\<lparr>parseColor := parseColorProxy (parseColor w)\<rparr>) =
        Inr (combinations', w2) \<longrightarrow>
      parseColor w2 = parseColorProxy (parseColor w) \<and>
      run env elements w = Inr (w2\<lparr>parseColor := parseColor w\<rparr>)) \<and>
   (\<forall>e. eachElement env elements Map.empty (w\<lparr>parseColor := parseColorProxy (parseColor w)\<rparr>) =
        Inl e \<longrightarrow>
      run env elements w = Inl e) \<and>
   ((\<forall>b \<in> set blindnesses. \<forall>c. \<exists>v. blinder env c (fst b) False = Inr v) \<longrightarrow>
      (\<exists>w'. run env elements w = Inr w'))"
proof (intro conjI allI impI)
  show "parseColorProxy original ''transparent'' = Some (Color (Fin 0) (Fin 0) (Fin 0) (Fin 0))"
    by (simp add: parseColorProxy_def)
next
  fix colorString :: string
  assume "colorString \<noteq> ''transparent''"
  then show "parseColorProxy original colorString = original colorString"
    by (simp add: parseColorProxy_def)
next
  fix w'
  assume "run env elements w = Inr w'"
  then show "parseColor w' = parseColor w"
    by (auto simp add: run_def Let_def split: sum.splits prod.splits)
next
  fix combinations' w2
  assume loop: "eachElement env elements Map.empty
                  (w\<lparr>parseColor := parseColorProxy (parseColor w)\<rparr>) = Inr (combinations', w2)"
  from eachElement_keeps_parseColor [OF loop]
  show "parseColor w2 = parseColorProxy (parseColor w)"
    by simp
  from loop show "run env elements w = Inr (w2\<lparr>parseColor := parseColor w\<rparr>)"
    by (simp add: run_def Let_def)
next
  fix e
  assume "eachElement env elements Map.empty
            (w\<lparr>parseColor := parseColorProxy (parseColor w)\<rparr>) = Inl e"
  then show "run env elements w = Inl e"
    by (simp add: run_def Let_def)
next
  assume "\<forall>b \<in> set blindnesses. \<forall>c. \<exists>v. blinder env c (fst b) False = Inr v"
  from eachElement_returns [OF this] obtain c2 w2 where
    "eachElement env elements Map.empty
       (w\<lparr>parseColor := parseColorProxy (parseColor w)\<rparr>) = Inr (c2, w2)"
    by fastforce
  then show "\<exists>w'. run env elements w = Inr w'"
    by (simp add: run_def Let_def)
qed

lemma demo_eachElement_rejecting:
  "eachElement (demoEnv\<lparr>blinder := rejectingTransform\<rparr>) [0, 3] Map.empty
       (demoWorld\<lparr>parseColor := parseColorProxy (parseColor demoWorld)\<rparr>) =
     Inl (Thrown ''unsupported deficiency'')"
proof -
  let ?env = "demoEnv\<lparr>blinder := rejectingTransform\<rparr>"
  have sel: "\<not> hasDirectTextDescendant demoEnv 0" "hasDirectTextDescendant demoEnv 3"
    "\<not> insideTota11y demoEnv 3" "\<not> elementIsTransparent demoEnv 3"
    "\<not> elementHasZeroArea demoEnv 3"
    by (simp_all add: demoEnv_def)
  have "blind (blinder ?env) c b = Inl (Thrown ''unsupported deficiency'')" for c b
    by (simp add: blind_def rejectingTransform_def)
  then have "runOneType ?env el combinations fgColor bgColor style b name tr =
               Inl (Thrown ''unsupported deficiency'')"
    for el combinations fgColor bgColor style b name tr
    by (rule runOneType_blind_fg_fails)
  then have "forBlindnesses ?env el fgColor bgColor style blindnesses combinations tr =
               Inl (Thrown ''unsupported deficiency'')"
    for el combinations fgColor bgColor style tr
    by (simp add: blindnesses_def)
  then show ?thesis
    by (simp add: sel Let_def)
qed

text \<open>
  The theorem on a page of two elements: element 0 has no text, element 3 has a transparent
  background, which the installed function reads as (0, 0, 0, 0) and the saved one does
  not parse. Element 3 is labelled once for each kind of blindness, and the global is the
  saved function again. With a transform that rejects every kind, the same run ends with
  the exception.
\<close>

theorem run_restores_parseColor_witness:
  "run demoEnv [0, 3] demoWorld =
     Inr \<lparr>parseColor = demoParseColor,
          events = [AnnotateLabel 3 ''21.00'' ''tota11y-label-success'',
                    AnnotateLabel 3 ''21.00'' ''tota11y-label-success'',
                    AnnotateLabel 3 ''21.00'' ''tota11y-label-success'']\<rparr> \<and>
   parseColorProxy demoParseColor ''transparent'' = Some (Color (Fin 0) (Fin 0) (Fin 0) (Fin 0)) \<and>
   parseColorProxy demoParseColor ''#000000'' = Some black \<and>
   demoParseColor ''transparent'' = None \<and>
   (\<exists>w'. run demoEnv [0, 3] demoWorld = Inr w' \<and> parseColor w' = demoParseColor) \<and>
   run (demoEnv\<lparr>blinder := rejectingTransform\<rparr>) [0, 3] demoWorld =
     Inl (Thrown ''unsupported deficiency'')"
proof -
  note inst = run_restores_parseColor
                [where env = demoEnv and elements = "[0, 3]" and w = demoWorld
                   and original = demoParseColor]
  have a: "parseColorProxy demoParseColor ''transparent'' =
             Some (Color (Fin 0) (Fin 0) (Fin 0) (Fin 0))"
    by (rule inst [THEN conjunct1])
  have "parseColorProxy demoParseColor ''#000000'' = demoParseColor ''#000000''"
    by (rule inst [THEN conjunct2, THEN conjunct1, rule_format]) simp
  then have b: "parseColorProxy demoParseColor ''#000000'' = Some black"
    by (simp add: demoParseColor_def)
  have "run demoEnv [0, 3] demoWorld =
       Inr (\<lparr>parseColor = parseColorProxy demoParseColor,
             events = [AnnotateLabel 3 ''21.00'' ''tota11y-label-success'',
                       AnnotateLabel 3 ''21.00'' ''tota11y-label-success'',
                       AnnotateLabel 3 ''21.00'' ''tota11y-label-success'']\<rparr>
            \<lparr>parseColor := parseColor demoWorld\<rparr>)"
    by (rule inst [THEN conjunct2, THEN conjunct2, THEN conjunct2, THEN conjunct1, rule_format,
                   OF demo_eachElement, THEN conjunct2])
  then have c: "run demoEnv [0, 3] demoWorld =
     Inr \<lparr>parseColor = demoParseColor,
          events = [AnnotateLabel 3 ''21.00'' ''tota11y-label-success'',
                    AnnotateLabel 3 ''21.00'' ''tota11y-label-success'',
                    AnnotateLabel 3 ''21.00'' ''tota11y-label-success'']\<rparr>"
    by (simp add: demoWorld_def)
  have d: "demoParseColor ''transparent'' = None"
    by (simp add: demoParseColor_def)
  have supported: "\<forall>b \<in> set blindnesses. \<forall>c. \<exists>v. blinder demoEnv c (fst b) False = Inr v"
    by (auto simp add: blindnesses_def demoEnv_def meanTransform_def split: jsnum.splits)
  from inst [THEN conjunct2, THEN conjunct2, THEN conjunct2, THEN conjunct2, THEN conjunct2,
             THEN mp, OF supported]
  obtain w' where w': "run demoEnv [0, 3] demoWorld = Inr w'"
    by blast
  from inst [THEN conjunct2, THEN conjunct2, THEN conjunct1, rule_format, OF w']
  have "parseColor w' = demoParseColor"
    by (simp add: demoWorld_def)
  with w' have e: "\<exists>w'. run demoEnv [0, 3] demoWorld = Inr w' \<and> parseColor w' = demoParseColor"
    by blast
  have f: "run (demoEnv\<lparr>blinder := rejectingTransform\<rparr>) [0, 3] demoWorld =
             Inl (Thrown ''unsupported deficiency'')"
    by (rule run_restores_parseColor
               [where env = "demoEnv\<lparr>blinder := rejectingTransform\<rparr>" and elements = "[0, 3]"
                  and w = demoWorld,
                THEN conjunct2, THEN conjunct2, THEN conjunct2, THEN conjunct2, THEN conjunct1,
                rule_format, OF demo_eachElement_rejecting])
  from a b c d e f show ?thesis by simp
qed

end
